theory Spec2Isabelle
  imports Complex_Main "HOL-Library.Sublist"
begin

section \<open>SecureScript backend: shallow embedding of \<open>backend/server.py\<close>\<close>

text \<open>
  The service is a thin layer around three libraries (PyJWT, slowapi, the OpenAI client)
  and two built-ins (\<open>compile\<close>, \<open>json.loads\<close>). The functions of \<open>server.py\<close> are
  embedded as they are written; what a library or the network decides is a parameter of
  the model, so every theorem holds whatever the library answers.

  Python strings are modelled as \<open>string\<close>; a character stands for a code point below 256.
\<close>

subsection \<open>Exceptions\<close>

text \<open>
  Every \<open>raise\<close> of the source is a value. \<open>HTTPException\<close> carries the status code and
  the detail string; the other constructors are the library exceptions that the handlers
  of \<open>server.py\<close> tell apart, and \<open>OtherException\<close> is any other subclass of
  \<open>Exception\<close>.
\<close>

datatype py_exception =
    HTTPException nat string
  | ExpiredSignatureError
  | InvalidTokenError
  | JSONDecodeError
  | OtherException string

subsection \<open>Python string helpers\<close>

text \<open>
  \<open>str.isspace\<close> on one character, for code points below 256: TAB, LF, VT, FF, CR,
  the separators FS, GS, RS, US, the space, NEL and the no-break space. The same class
  is what \<open>\s\<close> matches in a \<open>str\<close> pattern of \<open>re\<close>.
\<close>

definition py_isspace :: "char \<Rightarrow> bool" where
  "py_isspace c = (of_char c \<in> {9, 10, 11, 12, 13, 28, 29, 30, 31, 32, 133, 160 :: nat})"

text \<open>\<open>s.strip()\<close>: whitespace removed at both ends.\<close>

definition py_strip :: "string \<Rightarrow> string" where
  "py_strip s = rev (dropWhile py_isspace (rev (dropWhile py_isspace s)))"

text \<open>
  \<open>s.lower()\<close> on code points below 256: the ASCII capitals and the Latin-1 capitals
  (all of 192 to 222 but the multiplication sign 215) move up by 32.
\<close>

definition py_lower_char :: "char \<Rightarrow> char" where
  "py_lower_char c =
     (let n = (of_char c :: nat)
      in if (65 \<le> n \<and> n \<le> 90) \<or> (192 \<le> n \<and> n \<le> 222 \<and> n \<noteq> 215)
         then char_of (n + 32) else c)"

definition py_lower :: "string \<Rightarrow> string" where
  "py_lower s = map py_lower_char s"

text \<open>\<open>s.split(sep)\<close> for a separator of one character: never an empty list.\<close>

fun py_split :: "char \<Rightarrow> string \<Rightarrow> string list" where
  "py_split sep [] = [[]]"
| "py_split sep (c # cs) =
     (if c = sep then [] # py_split sep cs
      else (case py_split sep cs of
              [] \<Rightarrow> [[c]]
            | h # t \<Rightarrow> (c # h) # t))"

text \<open>\<open>sep.join(xs)\<close>.\<close>

fun py_join :: "string \<Rightarrow> string list \<Rightarrow> string" where
  "py_join sep [] = []"
| "py_join sep [x] = x"
| "py_join sep (x # y # ys) = x @ sep @ py_join sep (y # ys)"

text \<open>\<open>str(n)\<close> for a natural number: its decimal digits.\<close>

fun py_str_nat :: "nat \<Rightarrow> string" where
  "py_str_nat n =
     (if n < 10 then [char_of (48 + n)]
      else py_str_nat (n div 10) @ [char_of (48 + n mod 10)])"

subsection \<open>Python values and the environment\<close>

text \<open>
  The values \<open>json.loads\<close> and \<open>jwt.decode\<close> hand back: \<open>None\<close>, booleans, integers,
  floats (a finite float is the rational it denotes), strings, lists and dictionaries.
\<close>

datatype json =
    JNull
  | JBool bool
  | JInt int
  | JFloat rat
  | JStr string
  | JList "json list"
  | JDict "(string \<times> json) list"

text \<open>Truth value testing, as \<open>not x\<close> and \<open>x or y\<close> use it.\<close>

fun truthy :: "json \<Rightarrow> bool" where
  "truthy JNull = False"
| "truthy (JBool b) = b"
| "truthy (JInt i) = (i \<noteq> 0)"
| "truthy (JFloat r) = (r \<noteq> 0)"
| "truthy (JStr s) = (s \<noteq> [])"
| "truthy (JList xs) = (xs \<noteq> [])"
| "truthy (JDict kvs) = (kvs \<noteq> [])"

definition py_or :: "json \<Rightarrow> json \<Rightarrow> json" where
  "py_or a b = (if truthy a then a else b)"

text \<open>\<open>d.get(k)\<close>: \<open>None\<close> for a missing key.\<close>

definition dict_get :: "(string \<rightharpoonup> json) \<Rightarrow> string \<Rightarrow> json" where
  "dict_get d k = (case d k of None \<Rightarrow> JNull | Some v \<Rightarrow> v)"

type_synonym environ = "string \<rightharpoonup> string"

text \<open>\<open>os.getenv(key, default)\<close>.\<close>

definition os_getenv :: "environ \<Rightarrow> string \<Rightarrow> string \<Rightarrow> string" where
  "os_getenv env k d = (case env k of None \<Rightarrow> d | Some v \<Rightarrow> v)"

subsection \<open>Data models (pydantic classes of \<open>server.py\<close>)\<close>

record SecurityIssue =
  title :: string
  description :: string
  code :: string
  fix' :: string
  cvss_score :: rat
  severity :: string

record SecurityReport =
  summary :: string
  issues :: "SecurityIssue list"

record FixRequest =
  code :: string
  issues :: "SecurityIssue list"

record AnalyzeRequest =
  code :: string

text \<open>
  The incoming HTTP request, as far as the handlers read it: its headers (under their
  canonical names) and the remote address.
\<close>

record Request =
  headers :: "string \<rightharpoonup> string"
  remote_address :: string

subsection \<open>Request validation\<close>

text \<open>
  The outcome of the built-in \<open>compile(source, '<string>', 'exec')\<close>: a code object, a
  \<open>SyntaxError\<close> whose \<open>str(e)\<close> is carried, or another exception (for instance
  \<open>ValueError\<close> on a null byte in older interpreters), which \<open>validate_request\<close> does
  not catch.
\<close>

datatype compile_outcome =
    Compiled
  | SyntaxError string
  | CompileRaises py_exception

text \<open>
  \<open>validate_request\<close>, lines 160 to 172. The order of the three checks is the source's:
  emptiness, then size, then the compiler.
\<close>

definition validate_request ::
  "(string \<Rightarrow> compile_outcome) \<Rightarrow> AnalyzeRequest \<Rightarrow> py_exception + unit" where
  "validate_request py_compile request =
     (if AnalyzeRequest.code request = [] \<or> py_strip (AnalyzeRequest.code request) = [] then
        Inl (HTTPException 400 ''Code cannot be empty'')
      else if length (AnalyzeRequest.code request) > 50000 then
        Inl (HTTPException 400 ''Code is too large. Maximum size is 50KB'')
      else
        (case py_compile (AnalyzeRequest.code request) of
           Compiled \<Rightarrow> Inr ()
         | SyntaxError e \<Rightarrow> Inl (HTTPException 400 (''Invalid Python syntax: '' @ e))
         | CompileRaises x \<Rightarrow> Inl x))"

subsection \<open>The two regular expressions of the response parser\<close>

text \<open>
  \<open>re.search(r'```json\s*([\s\S]*?)\s*```', text)\<close>, returning \<open>group(1)\<close>.

  \<open>lazy_until_fence\<close> is the lazy group followed by \<open>\s*```\<close>: the shortest prefix after
  which optional whitespace and three backquotes follow. Whitespace is never a backquote,
  so the greedy \<open>\s*\<close> has nothing to give back and \<open>dropWhile\<close> is its exact meaning.
\<close>

fun lazy_until_fence :: "string \<Rightarrow> string option" where
  "lazy_until_fence [] = None"
| "lazy_until_fence (c # cs) =
     (if prefix ''```'' (dropWhile py_isspace (c # cs)) then Some []
      else map_option ((#) c) (lazy_until_fence cs))"

text \<open>
  The search tries every start position from the left; at a position that begins with
  the opening fence, the greedy \<open>\s*\<close> takes all the whitespace that follows and the
  group starts there.
\<close>

fun re_search_fence :: "string \<Rightarrow> string option" where
  "re_search_fence [] = None"
| "re_search_fence (c # cs) =
     (if prefix ''```json'' (c # cs) then
        (case lazy_until_fence (dropWhile py_isspace (drop 7 (c # cs))) of
           Some g \<Rightarrow> Some g
         | None \<Rightarrow> re_search_fence cs)
      else re_search_fence cs)"

text \<open>
  \<open>re.search(r'\{[\s\S]*\}', text)\<close>, returning \<open>group(0)\<close>: from the first opening brace
  that has a closing brace after it, greedily up to the last closing brace of the text.
\<close>

definition greedy_to_last_brace :: "string \<Rightarrow> string option" where
  "greedy_to_last_brace cs =
     (if CHR ''}'' \<in> set cs then Some (rev (dropWhile (\<lambda>c. c \<noteq> CHR ''}'') (rev cs)))
      else None)"

fun re_search_brace :: "string \<Rightarrow> string option" where
  "re_search_brace [] = None"
| "re_search_brace (c # cs) =
     (if c = CHR ''{'' then
        (case greedy_to_last_brace cs of
           Some m \<Rightarrow> Some (c # m)
         | None \<Rightarrow> re_search_brace cs)
      else re_search_brace cs)"

subsection \<open>Security analysis: the gateway call and the response parser\<close>

text \<open>\<open>get_analysis_prompt\<close> of \<open>context.py\<close>.\<close>

definition get_analysis_prompt :: "string \<Rightarrow> string" where
  "get_analysis_prompt c =
     ''Analyze this Python code for security vulnerabilities:\<newline>\<newline>'' @ c"

text \<open>
  Lines 230 to 254 of \<open>run_security_analysis_with_mcp\<close>: from the text of the model's
  reply to a \<open>SecurityReport\<close>. \<open>loads\<close> is \<open>json.loads\<close>, which returns the decoded
  value or raises: \<open>JSONDecodeError\<close> on a text that is not JSON, or another exception
  (\<open>ValueError\<close> on an integer of too many digits, \<open>RecursionError\<close> on deep nesting).
  \<open>make_report\<close> is the pydantic constructor \<open>SecurityReport(**data)\<close>, which raises on a
  shape mismatch. Only the first \<open>json.loads\<close> stands inside the inner \<open>try\<close>, and its
  \<open>except\<close> clause catches \<open>JSONDecodeError\<close> alone; every other exception, and every
  exception of the second \<open>json.loads\<close>, leaves the function.
\<close>

definition extract_report ::
  "(string \<Rightarrow> py_exception + json) \<Rightarrow> (json \<Rightarrow> py_exception + SecurityReport) \<Rightarrow> string
     \<Rightarrow> py_exception + SecurityReport" where
  "extract_report loads make_report output_text =
     (case loads output_text of
        Inr data \<Rightarrow> make_report data
      | Inl JSONDecodeError \<Rightarrow>
          (case re_search_fence output_text of
             Some json_str \<Rightarrow>
               (case loads json_str of
                  Inl e \<Rightarrow> Inl e
                | Inr data \<Rightarrow> make_report data)
           | None \<Rightarrow>
               (case re_search_brace output_text of
                  Some json_str \<Rightarrow>
                    (case loads json_str of
                       Inl e \<Rightarrow> Inl e
                     | Inr data \<Rightarrow> make_report data)
                | None \<Rightarrow>
                    Inr \<lparr>summary = ''Failed to parse analysis results. Raw output: ''
                                    @ take 200 output_text,
                         SecurityReport.issues = []\<rparr>))
      | Inl e \<Rightarrow> Inl e)"

subsection \<open>Authentication\<close>

text \<open>
  What \<open>verify_authenticated_user\<close> asks of httpx and PyJWT. \<open>fetch_jwks\<close> is the GET of
  the key-set URL followed by \<open>jwks.get("keys", [])\<close>: each key with its \<open>kid\<close> (if any)
  and its JSON text. \<open>get_unverified_header\<close> gives the \<open>kid\<close> of the token's header,
  \<open>from_jwk\<close> builds the signing key, and the two \<open>decode\<close> functions are \<open>jwt.decode\<close>
  with and without signature verification. Each may raise.
\<close>

record jwt_lib =
  fetch_jwks :: "string \<Rightarrow> py_exception + (string option \<times> string) list"
  get_unverified_header :: "string \<Rightarrow> py_exception + string option"
  from_jwk :: "string \<Rightarrow> py_exception + string"
  decode_verified :: "string \<Rightarrow> string \<Rightarrow> py_exception + (string \<rightharpoonup> json)"
  decode_unverified :: "string \<Rightarrow> py_exception + (string \<rightharpoonup> json)"

text \<open>The loop of lines 86 to 90: the first key whose \<open>kid\<close> equals the token's.\<close>

fun find_signing_key ::
  "(string \<Rightarrow> py_exception + string) \<Rightarrow> string option \<Rightarrow> (string option \<times> string) list
     \<Rightarrow> py_exception + string option" where
  "find_signing_key mk kid [] = Inr None"
| "find_signing_key mk kid ((k, jwk) # keys) =
     (if k = kid then
        (case mk jwk of Inl e \<Rightarrow> Inl e | Inr signing_key \<Rightarrow> Inr (Some signing_key))
      else find_signing_key mk kid keys)"

text \<open>
  Line 108:
  \<open>payload.get("email") or payload.get("primary_email_address") or payload.get("sub")\<close>.
\<close>

definition user_identifier :: "(string \<rightharpoonup> json) \<Rightarrow> json" where
  "user_identifier payload =
     py_or (py_or (dict_get payload ''email'') (dict_get payload ''primary_email_address''))
           (dict_get payload ''sub'')"

text \<open>
  Lines 63 to 105 of the \<open>try\<close> block: from the token to its payload. Without a
  configured issuer host the signature is not verified, unless strict verification is
  required, which raises status 500.
\<close>

definition token_payload ::
  "environ \<Rightarrow> jwt_lib \<Rightarrow> string \<Rightarrow> py_exception + (string \<rightharpoonup> json)" where
  "token_payload env jwt token =
     (let clerk_frontend_api = os_getenv env ''CLERK_FRONTEND_API'' []
      in if clerk_frontend_api = []
            \<and> py_lower (os_getenv env ''REQUIRE_JWT_VERIFICATION'' ''true'') = ''true''
         then Inl (HTTPException 500 ''Server misconfiguration: CLERK_FRONTEND_API not set'')
         else if clerk_frontend_api \<noteq> [] then
           (case fetch_jwks jwt
                   (''https://'' @ clerk_frontend_api @ ''/.well-known/jwks.json'') of
              Inl e \<Rightarrow> Inl e
            | Inr keys \<Rightarrow>
                (case get_unverified_header jwt token of
                   Inl e \<Rightarrow> Inl e
                 | Inr kid \<Rightarrow>
                     (case find_signing_key (from_jwk jwt) kid keys of
                        Inl e \<Rightarrow> Inl e
                      | Inr None \<Rightarrow>
                          Inl (HTTPException 401 ''Unable to find signing key'')
                      | Inr (Some signing_key) \<Rightarrow>
                          decode_verified jwt token signing_key)))
         else decode_unverified jwt token)"

text \<open>The body of the \<open>try\<close> block, lines 63 to 113.\<close>

definition verify_token :: "environ \<Rightarrow> jwt_lib \<Rightarrow> string \<Rightarrow> py_exception + json" where
  "verify_token env jwt token =
     (case token_payload env jwt token of
        Inl e \<Rightarrow> Inl e
      | Inr payload \<Rightarrow>
          (let user_email = user_identifier payload
           in if \<not> truthy user_email
              then Inl (HTTPException 401 ''Invalid token: no user identifier'')
              else Inr user_email))"

text \<open>
  The three \<open>except\<close> clauses, lines 115 to 122. \<open>HTTPException\<close> is a subclass of
  \<open>Exception\<close>, so the last clause also catches the ones raised inside the \<open>try\<close>.
\<close>

fun auth_except :: "py_exception \<Rightarrow> py_exception" where
  "auth_except ExpiredSignatureError = HTTPException 401 ''Token expired. Please sign in again.''"
| "auth_except InvalidTokenError = HTTPException 401 ''Invalid authentication token.''"
| "auth_except e = HTTPException 401 ''Authentication failed.''"

text \<open>\<open>verify_authenticated_user\<close>, lines 48 to 122.\<close>

definition verify_authenticated_user ::
  "environ \<Rightarrow> jwt_lib \<Rightarrow> Request \<Rightarrow> py_exception + json" where
  "verify_authenticated_user env jwt request =
     (case headers request ''Authorization'' of
        None \<Rightarrow> Inl (HTTPException 401 ''Authentication required. Please sign in.'')
      | Some auth_header \<Rightarrow>
          if auth_header = [] \<or> \<not> prefix ''Bearer '' auth_header then
            Inl (HTTPException 401 ''Authentication required. Please sign in.'')
          else
            (case py_split (CHR '' '') auth_header of
               _ # token # _ \<Rightarrow>
                 (case verify_token env jwt token of
                    Inl e \<Rightarrow> Inl (auth_except e)
                  | Inr user_email \<Rightarrow> Inr user_email)
             | _ \<Rightarrow> Inl (OtherException ''IndexError'')))"

subsection \<open>API keys and the rate-limit key\<close>

text \<open>\<open>get_user_email\<close>, the key function of the limiter (line 40).\<close>

definition get_user_email :: "Request \<Rightarrow> string" where
  "get_user_email request =
     (case headers request ''X-User-Email'' of
        None \<Rightarrow> remote_address request
      | Some v \<Rightarrow> if v \<noteq> [] then v else remote_address request)"

definition check_api_keys :: "environ \<Rightarrow> py_exception + unit" where
  "check_api_keys env =
     (if os_getenv env ''GROQ_API_KEY'' [] = [] then
        Inl (HTTPException 500 ''Service temporarily unavailable'')
      else Inr ())"

definition verify_api_key :: "environ \<Rightarrow> string option \<Rightarrow> py_exception + bool" where
  "verify_api_key env x_api_key =
     (if py_lower (os_getenv env ''REQUIRE_API_KEY'' ''false'') = ''true'' then
        (let valid_keys = py_split (CHR '','') (os_getenv env ''VALID_API_KEYS'' [])
         in case x_api_key of
              None \<Rightarrow> Inl (HTTPException 401 ''Invalid or missing API key'')
            | Some k \<Rightarrow>
                if k = [] \<or> k \<notin> set valid_keys then
                  Inl (HTTPException 401 ''Invalid or missing API key'')
                else Inr True)
      else Inr True)"

subsection \<open>The world outside the process\<close>

text \<open>
  A streamed completion delivers chunks; of a chunk the handler reads
  \<open>chunk.choices[0].delta.content\<close>, so a chunk is the list of its choices' contents
  (\<open>None\<close> for a delta without text).
\<close>

type_synonym chunk = "string option list"

text \<open>
  \<open>client.chat.completions.create(..., stream=True)\<close> either raises or opens a stream; the
  stream delivers its chunks and then ends, normally or with an exception.
\<close>

datatype upstream =
    CreateRaises py_exception
  | Stream "chunk list" "py_exception option"

text \<open>
  Everything a request depends on besides the request and the environment variables:
  the built-ins and libraries (\<open>compile\<close>, \<open>json.loads\<close>, the pydantic constructor
  \<open>SecurityReport(**data)\<close>, PyJWT and httpx), whether \<open>AsyncOpenAI(...)\<close> can be
  constructed, the model's answer to a non-streamed and to a streamed request (given the
  user prompt), the decision of the slowapi limiter for a key and a route, and the
  identifier drawn for the request.
\<close>

record world =
  py_compile :: "string \<Rightarrow> compile_outcome"
  json_loads :: "string \<Rightarrow> py_exception + json"
  make_report :: "json \<Rightarrow> py_exception + SecurityReport"
  jwt :: jwt_lib
  client_init :: "py_exception option"
  chat_completion :: "string \<Rightarrow> py_exception + string"
  chat_stream :: "string \<Rightarrow> upstream"
  limiter_hit :: "string \<Rightarrow> string \<Rightarrow> bool"
  request_id :: string

subsection \<open>Calls to the model\<close>

text \<open>
  The two places where the process contacts the model,
  \<open>client.chat.completions.create(...)\<close> without and with \<open>stream=True\<close>. Each gives the
  model's answer together with the prompt it sent, so that the prompts a handler reports
  are the calls it made.
\<close>

definition create_completion :: "world \<Rightarrow> string \<Rightarrow> (py_exception + string) \<times> string list" where
  "create_completion w prompt = (chat_completion w prompt, [prompt])"

definition create_stream :: "world \<Rightarrow> string \<Rightarrow> upstream \<times> string list" where
  "create_stream w prompt = (chat_stream w prompt, [prompt])"

subsection \<open>The analyze endpoint\<close>

text \<open>
  \<open>run_security_analysis_with_mcp\<close>, lines 194 to 258, with the prompts sent to the
  model beside the result. \<open>chat_completion\<close> answers with the text of the reply, or
  with the exception of the call or of line 231 on a reply without text. The outer
  \<open>except\<close> logs and re-raises.
\<close>

definition run_security_analysis_with_mcp ::
  "world \<Rightarrow> string \<Rightarrow> (py_exception + SecurityReport) \<times> string list" where
  "run_security_analysis_with_mcp w c =
     (case client_init w of
        Some e \<Rightarrow> (Inl e, [])
      | None \<Rightarrow>
          (case create_completion w (get_analysis_prompt c) of
             (Inl e, calls) \<Rightarrow> (Inl e, calls)
           | (Inr output_text, calls) \<Rightarrow>
               (extract_report (json_loads w) (make_report w) output_text, calls)))"

text \<open>What a handler answers, and the prompts it sent to the model on the way.\<close>

record 'a outcome =
  response :: "py_exception + 'a"
  gateway_calls :: "string list"

text \<open>The body of the \<open>try\<close> block of \<open>analyze_code\<close>, lines 280 to 295.\<close>

definition analyze_steps ::
  "environ \<Rightarrow> world \<Rightarrow> AnalyzeRequest \<Rightarrow> string option
     \<Rightarrow> (py_exception + SecurityReport) \<times> string list" where
  "analyze_steps env w analyze_request x_api_key =
     (case verify_api_key env x_api_key of
        Inl e \<Rightarrow> (Inl e, [])
      | Inr _ \<Rightarrow>
          (case validate_request (py_compile w) analyze_request of
             Inl e \<Rightarrow> (Inl e, [])
           | Inr _ \<Rightarrow>
               (case check_api_keys env of
                  Inl e \<Rightarrow> (Inl e, [])
                | Inr _ \<Rightarrow>
                    run_security_analysis_with_mcp w (AnalyzeRequest.code analyze_request))))"

text \<open>The two \<open>except\<close> clauses of \<open>analyze_code\<close>, lines 297 to 304.\<close>

fun analyze_except :: "string \<Rightarrow> py_exception \<Rightarrow> py_exception" where
  "analyze_except rid (HTTPException status detail) = HTTPException status detail"
| "analyze_except rid e =
     HTTPException 500 (''Analysis failed. Contact support with ID: '' @ rid)"

text \<open>What the limiter's exception handler answers.\<close>

definition rate_limit_exceeded :: py_exception where
  "rate_limit_exceeded = HTTPException 429 ''Rate limit exceeded: 7 per 1 day''"

text \<open>
  The handler of \<open>POST /api/analyze\<close>, lines 261 to 304, for a body that FastAPI has
  turned into an \<open>AnalyzeRequest\<close>. FastAPI resolves the dependency
  \<open>verify_authenticated_user\<close> first; the limiter's wrapper runs next, then the
  handler's body.
\<close>

definition analyze_code ::
  "environ \<Rightarrow> world \<Rightarrow> Request \<Rightarrow> AnalyzeRequest \<Rightarrow> string option \<Rightarrow> SecurityReport outcome" where
  "analyze_code env w request analyze_request x_api_key =
     (case verify_authenticated_user env (jwt w) request of
        Inl e \<Rightarrow> \<lparr>response = Inl e, gateway_calls = []\<rparr>
      | Inr user_email \<Rightarrow>
          if \<not> limiter_hit w (get_user_email request) ''analyze_code'' then
            \<lparr>response = Inl rate_limit_exceeded, gateway_calls = []\<rparr>
          else
            (case analyze_steps env w analyze_request x_api_key of
               (Inl e, calls) \<Rightarrow>
                 \<lparr>response = Inl (analyze_except (request_id w) e), gateway_calls = calls\<rparr>
             | (Inr report, calls) \<Rightarrow>
                 \<lparr>response = Inr report, gateway_calls = calls\<rparr>))"

text \<open>
  What FastAPI makes of the body of a request before and while it resolves the
  dependencies of a route: the JSON cannot be decoded (\<open>JSONDecodeError\<close>), reading
  the body raises another exception, the decoded value does not have the shape of the
  route's model, or it gives the model.
\<close>

datatype 'a request_body =
    MalformedBody
  | UnreadableBody
  | InvalidBody
  | ValidBody 'a

text \<open>What FastAPI answers to a body it refuses.\<close>

definition request_validation_error :: py_exception where
  "request_validation_error = HTTPException 422 ''Unprocessable Entity''"

definition body_parsing_error :: py_exception where
  "body_parsing_error = HTTPException 400 ''There was an error parsing the body''"

text \<open>
  The route \<open>POST /api/analyze\<close> as FastAPI serves it. The body is decoded before the
  dependencies are resolved, so a body that is not JSON is answered with status 422
  (and a body that cannot be read with 400) whatever the headers are. The shape of a
  decoded body is checked with the dependencies: an exception of
  \<open>verify_authenticated_user\<close> leaves at once, and a body of the wrong shape is answered
  with 422 after it. A body of the right shape is handed to \<open>analyze_code\<close>.
\<close>

definition post_api_analyze ::
  "environ \<Rightarrow> world \<Rightarrow> Request \<Rightarrow> AnalyzeRequest request_body \<Rightarrow> string option
     \<Rightarrow> SecurityReport outcome" where
  "post_api_analyze env w request body x_api_key =
     (case body of
        MalformedBody \<Rightarrow> \<lparr>response = Inl request_validation_error, gateway_calls = []\<rparr>
      | UnreadableBody \<Rightarrow> \<lparr>response = Inl body_parsing_error, gateway_calls = []\<rparr>
      | InvalidBody \<Rightarrow>
          (case verify_authenticated_user env (jwt w) request of
             Inl e \<Rightarrow> \<lparr>response = Inl e, gateway_calls = []\<rparr>
           | Inr user_email \<Rightarrow>
               \<lparr>response = Inl request_validation_error, gateway_calls = []\<rparr>)
      | ValidBody analyze_request \<Rightarrow>
          analyze_code env w request analyze_request x_api_key)"

subsection \<open>The fix endpoint\<close>

text \<open>
  The server-sent events of the fix stream. On the wire an event is
  \<open>event: <name>\ndata: <json>\n\n\<close>; the data of \<open>chunk\<close> is
  \<open>json.dumps({'chunk': content})\<close>, of \<open>complete\<close> it is
  \<open>json.dumps({'fixed_code': fixed_code})\<close>, and \<open>start\<close> and \<open>error\<close> carry constants.
  The model keeps the name and the text each event carries.
\<close>

datatype sse_event =
    StartEvent
  | ChunkEvent string
  | CompleteEvent string
  | ErrorEvent

text \<open>
  Lines 337 to 340: one numbered line per issue,
  \<open>f"{i+1}. {issue.title}: {issue.description}"\<close>.
\<close>

fun issue_lines :: "nat \<Rightarrow> SecurityIssue list \<Rightarrow> string list" where
  "issue_lines i [] = []"
| "issue_lines i (issue # rest) =
     (py_str_nat (i + 1) @ ''. '' @ title issue @ '': '' @ description issue)
       # issue_lines (i + 1) rest"

text \<open>Lines 337 to 350: the prompt.\<close>

definition fix_prompt :: "FixRequest \<Rightarrow> string" where
  "fix_prompt fix_request =
     (let issues_text = py_join ''\<newline>'' (issue_lines 0 (FixRequest.issues fix_request))
      in ''Fix the following security issues in this Python code:\<newline>\<newline>''
         @ ''ISSUES TO FIX:\<newline>'' @ issues_text @ ''\<newline>\<newline>''
         @ ''ORIGINAL CODE:\<newline>'' @ FixRequest.code fix_request @ ''\<newline>\<newline>''
         @ ''Return ONLY the fixed code with all security issues resolved. ''
         @ ''Maintain the original code structure and comments.'')"

text \<open>
  The \<open>async for\<close> loop, lines 364 to 371, over the chunks delivered: the events it
  yields, and either the exception that ended it (\<open>choices[0]\<close> of a chunk without
  choices) or the text accumulated in \<open>fixed_code\<close> and whether the name \<open>json\<close> is bound.
  A chunk whose content is \<open>None\<close> or empty is passed over. The \<open>import json\<close> of line
  370 stands inside the \<open>if\<close>: it makes \<open>json\<close> a local name of the generator, bound
  once a chunk with content has been handled.
\<close>

fun stream_loop ::
  "chunk list \<Rightarrow> string \<Rightarrow> bool \<Rightarrow> sse_event list \<times> (py_exception + string \<times> bool)" where
  "stream_loop [] fixed_code json_bound = ([], Inr (fixed_code, json_bound))"
| "stream_loop ([] # rest) fixed_code json_bound = ([], Inl (OtherException ''IndexError''))"
| "stream_loop ((None # _) # rest) fixed_code json_bound =
     stream_loop rest fixed_code json_bound"
| "stream_loop ((Some content # _) # rest) fixed_code json_bound =
     (if content \<noteq> [] then
        (case stream_loop rest (fixed_code @ content) True of
           (events, r) \<Rightarrow> (ChunkEvent content # events, r))
      else stream_loop rest fixed_code json_bound)"

text \<open>
  \<open>generate_fix_stream\<close>, lines 329 to 379, with the prompts sent to the model beside
  the events. Every exception inside the generator ends the stream with one \<open>error\<close>
  event; one of them is the \<open>UnboundLocalError\<close> of line 374, where \<open>json.dumps\<close> is
  reached with the local name \<open>json\<close> unbound because no chunk carried content.
\<close>

definition generate_fix_stream :: "world \<Rightarrow> FixRequest \<Rightarrow> sse_event list \<times> string list" where
  "generate_fix_stream w fix_request =
     (case client_init w of
        Some e \<Rightarrow> ([ErrorEvent], [])
      | None \<Rightarrow>
          (case create_stream w (fix_prompt fix_request) of
             (CreateRaises e, calls) \<Rightarrow> ([StartEvent, ErrorEvent], calls)
           | (Stream chunks failure, calls) \<Rightarrow>
               (case stream_loop chunks [] False of
                  (events, Inl e) \<Rightarrow> (StartEvent # events @ [ErrorEvent], calls)
                | (events, Inr (fixed_code, json_bound)) \<Rightarrow>
                    (case failure of
                       Some e \<Rightarrow> (StartEvent # events @ [ErrorEvent], calls)
                     | None \<Rightarrow>
                         if json_bound then
                           (StartEvent # events @ [CompleteEvent fixed_code], calls)
                         else (StartEvent # events @ [ErrorEvent], calls)))))"

text \<open>
  \<open>POST /api/fix\<close>, lines 307 to 388: the dependency, the limiter, the API key, then
  the streaming response (status 200) over \<open>generate_fix_stream\<close>.
\<close>

definition fix_security_issues ::
  "environ \<Rightarrow> world \<Rightarrow> Request \<Rightarrow> FixRequest \<Rightarrow> string option
     \<Rightarrow> (sse_event list) outcome" where
  "fix_security_issues env w request fix_request x_api_key =
     (case verify_authenticated_user env (jwt w) request of
        Inl e \<Rightarrow> \<lparr>response = Inl e, gateway_calls = []\<rparr>
      | Inr user_email \<Rightarrow>
          if \<not> limiter_hit w (get_user_email request) ''fix_security_issues'' then
            \<lparr>response = Inl rate_limit_exceeded, gateway_calls = []\<rparr>
          else
            (case verify_api_key env x_api_key of
               Inl e \<Rightarrow> \<lparr>response = Inl e, gateway_calls = []\<rparr>
             | Inr _ \<Rightarrow>
                 (case generate_fix_stream w fix_request of
                    (events, calls) \<Rightarrow>
                      \<lparr>response = Inr events, gateway_calls = calls\<rparr>)))"

subsection \<open>Vocabulary of the properties\<close>

text \<open>A JSON text wrapped in a fenced code block tagged \<open>json\<close>.\<close>

definition fenced :: "string \<Rightarrow> string" where
  "fenced s = ''```json\<newline>'' @ s @ ''\<newline>```''"

text \<open>
  The number of bytes of a text in UTF-8: one for a code point below 128, two for the
  others below 256.
\<close>

definition utf8_length :: "string \<Rightarrow> nat" where
  "utf8_length s = sum_list (map (\<lambda>c. if (of_char c :: nat) < 128 then 1 else 2) s)"

text \<open>
  A PyJWT and httpx for the examples below: the key set cannot be fetched, and decoding
  a token gives the payload at hand.
\<close>

definition jwt_example :: "(string \<rightharpoonup> json) \<Rightarrow> jwt_lib" where
  "jwt_example payload =
     \<lparr>fetch_jwks = (\<lambda>_. Inl (OtherException ''ConnectError'')),
      get_unverified_header = (\<lambda>_. Inr None),
      from_jwk = (\<lambda>_. Inl InvalidTokenError),
      decode_verified = (\<lambda>_ _. Inr payload),
      decode_unverified = (\<lambda>_. Inr payload)\<rparr>"

text \<open>
  The answers of \<open>json.loads\<close> and of \<open>SecurityReport(**data)\<close> on the texts of the
  examples below: two JSON objects of the report's shape are decoded, a run of more
  than 4300 digits raises \<open>ValueError\<close> (the interpreter's limit on integer strings), and
  any other text of the examples is one on which \<open>json.loads\<close> raises
  \<open>JSONDecodeError\<close>.
\<close>

definition loads_example :: "string \<Rightarrow> py_exception + json" where
  "loads_example s =
     (if 4300 < length s \<and> list_all (\<lambda>c. c = CHR ''9'') s then
        Inl (OtherException ''ValueError'')
      else if s = ''{\"summary\": \"ok\", \"issues\": []}'' then
        Inr (JDict [(''summary'', JStr ''ok''), (''issues'', JList [])])
      else if s = ''{\"summary\": \"avoid ```eval```\", \"issues\": []}'' then
        Inr (JDict [(''summary'', JStr ''avoid ```eval```''), (''issues'', JList [])])
      else Inl JSONDecodeError)"

definition make_report_example :: "json \<Rightarrow> py_exception + SecurityReport" where
  "make_report_example d =
     (if d = JDict [(''summary'', JStr ''ok''), (''issues'', JList [])] then
        Inr \<lparr>summary = ''ok'', SecurityReport.issues = []\<rparr>
      else if d = JDict [(''summary'', JStr ''avoid ```eval```''), (''issues'', JList [])] then
        Inr \<lparr>summary = ''avoid ```eval```'', SecurityReport.issues = []\<rparr>
      else Inl (OtherException ''ValidationError''))"

text \<open>
  The text fragments of a stream: the non-empty contents of the first choices of its
  chunks, in arrival order.
\<close>

definition text_fragments :: "chunk list \<Rightarrow> string list" where
  "text_fragments chunks =
     filter (\<lambda>content. content \<noteq> [])
       (map (\<lambda>ch. case ch of Some content # _ \<Rightarrow> content | _ \<Rightarrow> []) chunks)"

text \<open>
  A world for the examples below: every text compiles, the token's payload names a
  subject, the limiter admits every request, the client can be constructed, and the
  model streams the fragments \<open>def\<close>, \<open> foo\<close> and \<open>():\<close>.
\<close>

definition world_example :: world where
  "world_example =
     \<lparr>py_compile = (\<lambda>_. Compiled),
      json_loads = loads_example,
      make_report = make_report_example,
      jwt = jwt_example [''sub'' \<mapsto> JStr ''user_2abc''],
      client_init = None,
      chat_completion = (\<lambda>_. Inr ''{\"summary\": \"ok\", \"issues\": []}''),
      chat_stream = (\<lambda>_. Stream [[Some ''def''], [Some '' foo''], [Some ''():'']] None),
      limiter_hit = (\<lambda>_ _. True),
      request_id = ''1a2b3c4d''\<rparr>"

section \<open>Properties\<close>

subsection \<open>Whitespace stripping\<close>

lemma py_strip_all_space:
  assumes "\<forall>c \<in> set s. py_isspace c"
  shows "py_strip s = []"
proof -
  have e: "dropWhile py_isspace s = []"
    using assms by simp
  show ?thesis
    unfolding py_strip_def e by simp
qed

lemma dropWhile_keeps_nonmatching:
  assumes "c \<in> set s" "\<not> P c"
  shows "c \<in> set (dropWhile P s)"
  using assms by (metis Un_iff set_append set_takeWhileD takeWhile_dropWhile_id)

lemma py_strip_nonspace:
  assumes "c \<in> set s" "\<not> py_isspace c"
  shows "py_strip s \<noteq> []"
proof -
  have "c \<in> set (rev (dropWhile py_isspace s))"
    using assms by (simp add: dropWhile_keeps_nonmatching)
  then have "c \<in> set (dropWhile py_isspace (rev (dropWhile py_isspace s)))"
    using assms(2) by (rule dropWhile_keeps_nonmatching)
  then have "dropWhile py_isspace (rev (dropWhile py_isspace s)) \<noteq> []"
    by (metis empty_iff empty_set)
  then show ?thesis
    unfolding py_strip_def by (simp only: rev_is_Nil_conv not_False_eq_True)
qed

lemma space_isspace: "py_isspace (CHR '' '')"
  by (simp add: py_isspace_def)

lemma length_le_utf8_length: "length s \<le> utf8_length s"
  by (induction s) (simp_all add: utf8_length_def)

text \<open>
  C3. Claimed: every input longer than 50,000 bytes fails with the size error, whatever
  its content, whitespace-only content included. The emptiness check runs first, so
  50,001 spaces are answered with "Code cannot be empty", whatever the compiler would
  say.
\<close>

theorem C3_whitespace_only_counterexample:
  "\<forall>compiler. validate_request compiler \<lparr>AnalyzeRequest.code = replicate 50001 (CHR '' '')\<rparr>
     = Inl (HTTPException 400 ''Code cannot be empty'')"
  by (simp add: validate_request_def py_strip_all_space space_isspace)

text \<open>
  C3, amended: every input of more than 50,000 characters that is not whitespace-only
  fails with status 400 and the size message, whatever the compiler would say of it;
  and every whitespace-only input, the empty one included, fails with status 400 and
  "Code cannot be empty", whatever its length.
\<close>

theorem C3_too_large:
  "(50000 < length (AnalyzeRequest.code request)
      \<and> (\<exists>c \<in> set (AnalyzeRequest.code request). \<not> py_isspace c) \<longrightarrow>
        validate_request compiler request
          = Inl (HTTPException 400 ''Code is too large. Maximum size is 50KB''))
   \<and> ((\<forall>c \<in> set (AnalyzeRequest.code request). py_isspace c) \<longrightarrow>
        validate_request compiler request = Inl (HTTPException 400 ''Code cannot be empty''))"
proof (intro conjI impI)
  assume a: "50000 < length (AnalyzeRequest.code request)
      \<and> (\<exists>c \<in> set (AnalyzeRequest.code request). \<not> py_isspace c)"
  then have "py_strip (AnalyzeRequest.code request) \<noteq> []"
    using py_strip_nonspace by blast
  with a show "validate_request compiler request
      = Inl (HTTPException 400 ''Code is too large. Maximum size is 50KB'')"
    by (auto simp: validate_request_def)
next
  assume "\<forall>c \<in> set (AnalyzeRequest.code request). py_isspace c"
  then have "py_strip (AnalyzeRequest.code request) = []"
    by (rule py_strip_all_space)
  then show "validate_request compiler request = Inl (HTTPException 400 ''Code cannot be empty'')"
    by (simp add: validate_request_def)
qed

lemma a_not_space: "\<not> py_isspace (CHR ''a'')"
  by (simp add: py_isspace_def)

theorem C3_too_large_witness:
  "validate_request (\<lambda>_. Compiled) \<lparr>code = replicate 50001 (CHR ''a'')\<rparr>
     = Inl (HTTPException 400 ''Code is too large. Maximum size is 50KB'')
   \<and> validate_request (\<lambda>_. Compiled) \<lparr>code = [CHR '' '', CHR 0x09, CHR 0x0A]\<rparr>
     = Inl (HTTPException 400 ''Code cannot be empty'')"
proof -
  have 1: "\<exists>c \<in> set (replicate 50001 (CHR ''a'')). \<not> py_isspace c"
    using a_not_space by simp
  have 2: "\<forall>c \<in> set [CHR '' '', CHR 0x09, CHR 0x0A]. py_isspace c"
    by (simp add: py_isspace_def)
  show ?thesis
    using C3_too_large [of "\<lparr>code = replicate 50001 (CHR ''a'')\<rparr>" "\<lambda>_. Compiled"]
      C3_too_large [of "\<lparr>code = [CHR '' '', CHR 0x09, CHR 0x0A]\<rparr>" "\<lambda>_. Compiled"]
      1 2
    by simp
qed

text \<open>
  C6. Claimed: every syntactically invalid input fails with the syntax error, and every
  valid non-empty input of at most 50,000 bytes passes. The parser runs last: an invalid
  input of 50,001 opening parentheses is answered with the size error, and a single
  space (which compiles to an empty module) with "Code cannot be empty".
\<close>

theorem C6_parser_runs_last_counterexample:
  "(\<forall>compiler. validate_request compiler \<lparr>AnalyzeRequest.code = replicate 50001 (CHR ''('')\<rparr>
       = Inl (HTTPException 400 ''Code is too large. Maximum size is 50KB''))
   \<and> (\<forall>compiler. validate_request compiler \<lparr>AnalyzeRequest.code = '' ''\<rparr>
       = Inl (HTTPException 400 ''Code cannot be empty''))"
proof -
  have "CHR ''('' \<in> set (replicate 50001 (CHR ''(''))"
    by simp
  moreover have "\<not> py_isspace (CHR ''('')"
    by (simp add: py_isspace_def)
  ultimately have "py_strip (replicate 50001 (CHR ''('')) \<noteq> []"
    by (rule py_strip_nonspace)
  moreover have "py_strip '' '' = []"
    by (simp add: py_strip_def py_isspace_def)
  ultimately show ?thesis
    by (simp add: validate_request_def)
qed

text \<open>
  C6, amended: for every input that is not whitespace-only and has at most 50,000
  bytes, the validator fails with status 400 and the parser's message when the compiler
  raises a syntax error, and passes when the input compiles.
\<close>

theorem C6_syntax_check:
  assumes "\<exists>c \<in> set (AnalyzeRequest.code request). \<not> py_isspace c"
    and "utf8_length (AnalyzeRequest.code request) \<le> 50000"
  shows "(compiler (AnalyzeRequest.code request) = SyntaxError msg \<longrightarrow>
            validate_request compiler request
              = Inl (HTTPException 400 (''Invalid Python syntax: '' @ msg)))
       \<and> (compiler (AnalyzeRequest.code request) = Compiled \<longrightarrow>
            validate_request compiler request = Inr ())"
proof -
  have "py_strip (AnalyzeRequest.code request) \<noteq> []"
    using assms(1) py_strip_nonspace by blast
  moreover have "length (AnalyzeRequest.code request) \<le> 50000"
    using assms(2) length_le_utf8_length [of "AnalyzeRequest.code request"] by simp
  ultimately show ?thesis
    by (auto simp: validate_request_def py_strip_def)
qed

theorem C6_syntax_check_witness:
  "validate_request (\<lambda>_. SyntaxError ''invalid syntax (<string>, line 1)'')
       \<lparr>AnalyzeRequest.code = ''x = ''\<rparr>
     = Inl (HTTPException 400 ''Invalid Python syntax: invalid syntax (<string>, line 1)'')
   \<and> validate_request (\<lambda>_. Compiled) \<lparr>AnalyzeRequest.code = ''x = 1''\<rparr> = Inr ()"
proof -
  have 1: "\<exists>c \<in> set ''x = ''. \<not> py_isspace c" and 2: "\<exists>c \<in> set ''x = 1''. \<not> py_isspace c"
    by (simp_all add: py_isspace_def)
  have 3: "utf8_length ''x = '' \<le> 50000" and 4: "utf8_length ''x = 1'' \<le> 50000"
    by (simp_all add: utf8_length_def)
  show ?thesis
    using 1 2 3 4
      C6_syntax_check [of "\<lparr>AnalyzeRequest.code = ''x = ''\<rparr>"
        "\<lambda>_. SyntaxError ''invalid syntax (<string>, line 1)''"
        "''invalid syntax (<string>, line 1)''"]
      C6_syntax_check [of "\<lparr>AnalyzeRequest.code = ''x = 1''\<rparr>" "\<lambda>_. Compiled" "[]"]
    by simp
qed

subsection \<open>The fenced-block search\<close>

lemma backquote_not_space: "\<not> py_isspace (CHR 0x60)"
  by (simp add: py_isspace_def)

lemma newline_isspace: "py_isspace (CHR 0x0A)"
  by (simp add: py_isspace_def)

lemma fence_after_space:
  assumes "\<forall>c \<in> set ws. py_isspace c"
  shows "dropWhile py_isspace (ws @ ''```'' @ rest) = ''```'' @ rest"
  using assms by (induction ws) (simp_all add: backquote_not_space)

lemma no_fence_before_space:
  assumes "\<not> sublist ''```'' u" and "u \<noteq> []" and "\<not> py_isspace (hd u)"
    and "ws \<noteq> []" and "\<forall>c \<in> set ws. py_isspace c"
  shows "\<not> prefix ''```'' (dropWhile py_isspace (u @ ws @ rest))"
proof
  assume p: "prefix ''```'' (dropWhile py_isspace (u @ ws @ rest))"
  from assms(2,3) have d: "dropWhile py_isspace (u @ ws @ rest) = u @ ws @ rest"
    by (cases u) simp_all
  obtain w ws' where ws: "ws = w # ws'" and w: "py_isspace w"
    using assms(4,5) by (cases ws) auto
  have wq: "w \<noteq> CHR 0x60"
    using w backquote_not_space by auto
  from p d have q: "prefix ''```'' (u @ w # ws' @ rest)"
    by (simp add: ws)
  show False
  proof (cases u)
    case Nil
    with assms(2) show False by simp
  next
    case (Cons a u1)
    show False
    proof (cases u1)
      case Nil
      with q Cons wq show False by simp
    next
      case (Cons b u2)
      show False
      proof (cases u2)
        case Nil
        with q \<open>u = a # u1\<close> \<open>u1 = b # u2\<close> wq show False by simp
      next
        case (Cons c u3)
        with q \<open>u = a # u1\<close> \<open>u1 = b # u2\<close> have "prefix ''```'' u"
          by auto
        then have "sublist ''```'' u"
          by (rule prefix_imp_sublist)
        with assms(1) show False by simp
      qed
    qed
  qed
qed

lemma lazy_until_fence_finds:
  assumes "\<not> sublist ''```'' u" and "u \<noteq> [] \<longrightarrow> \<not> py_isspace (last u)"
    and "ws \<noteq> []" and "\<forall>c \<in> set ws. py_isspace c"
  shows "lazy_until_fence (u @ ws @ ''```'' @ rest) = Some u"
  using assms(1,2)
proof (induction u)
  case Nil
  obtain w ws' where ws: "ws = w # ws'"
    using assms(3) by (cases ws) auto
  have "dropWhile py_isspace (ws @ ''```'' @ rest) = ''```'' @ rest"
    using assms(4) by (rule fence_after_space)
  then have "prefix ''```'' (dropWhile py_isspace (w # ws' @ ''```'' @ rest))"
    by (simp add: ws)
  then show ?case
    by (simp add: ws)
next
  case (Cons a u)
  have nf: "\<not> sublist ''```'' u"
    using Cons.prems(1) by (meson sublist_Cons_right)
  have lastu: "u \<noteq> [] \<longrightarrow> \<not> py_isspace (last u)"
    using Cons.prems(2) by auto
  have ih: "lazy_until_fence (u @ ws @ ''```'' @ rest) = Some u"
    using Cons.IH nf lastu by blast
  let ?v = "dropWhile py_isspace (a # u)"
  have vne: "?v \<noteq> []"
    using Cons.prems(2) by (metis dropWhile_eq_Nil_conv last_in_set list.distinct(1))
  have vhd: "\<not> py_isspace (hd ?v)"
    using vne by (rule hd_dropWhile)
  have vnf: "\<not> sublist ''```'' ?v"
    using Cons.prems(1) by (metis sublist_order.order.trans suffix_dropWhile suffix_imp_sublist)
  obtain x where x: "x \<in> set (a # u)" "\<not> py_isspace x"
    using vne by (metis dropWhile_eq_Nil_conv)
  have "dropWhile py_isspace ((a # u) @ ws @ ''```'' @ rest) = ?v @ ws @ ''```'' @ rest"
    using x by (rule dropWhile_append1)
  moreover have "\<not> prefix ''```'' (dropWhile py_isspace (?v @ ws @ ''```'' @ rest))"
    using vnf vne vhd assms(3,4) by (rule no_fence_before_space)
  moreover have "dropWhile py_isspace (?v @ ws @ ''```'' @ rest) = ?v @ ws @ ''```'' @ rest"
    using vne vhd by (cases ?v) simp_all
  ultimately have "\<not> prefix ''```'' (dropWhile py_isspace ((a # u) @ ws @ ''```'' @ rest))"
    by simp
  then show ?case
    using ih by simp
qed


lemma py_strip_decomp:
  "dropWhile py_isspace s
     = py_strip s @ rev (takeWhile py_isspace (rev (dropWhile py_isspace s)))"
  unfolding py_strip_def
  by (metis rev_append rev_rev_ident takeWhile_dropWhile_id)

lemma py_strip_last:
  assumes "py_strip s \<noteq> []"
  shows "\<not> py_isspace (last (py_strip s))"
proof -
  let ?r = "dropWhile py_isspace (rev (dropWhile py_isspace s))"
  have ne: "?r \<noteq> []"
    using assms by (simp add: py_strip_def)
  then have "\<not> py_isspace (hd ?r)"
    by (rule hd_dropWhile)
  moreover have "last (rev ?r) = hd ?r"
    using ne by (simp add: last_rev)
  ultimately show ?thesis
    by (simp add: py_strip_def)
qed

lemma py_strip_sublist: "sublist (py_strip s) s"
proof -
  have "prefix (py_strip s) (dropWhile py_isspace s)"
    by (metis py_strip_decomp prefixI)
  then have "sublist (py_strip s) (dropWhile py_isspace s)"
    by (rule prefix_imp_sublist)
  moreover have "sublist (dropWhile py_isspace s) s"
    by (simp add: suffix_dropWhile suffix_imp_sublist)
  ultimately show ?thesis
    by (rule sublist_order.order.trans)
qed

lemma re_search_fence_fenced:
  assumes "\<not> sublist ''```'' s"
  shows "re_search_fence (fenced s) = Some (py_strip s)"
proof -
  have found: "lazy_until_fence (dropWhile py_isspace (s @ ''\<newline>```'')) = Some (py_strip s)"
  proof (cases "\<forall>c \<in> set s. py_isspace c")
    case True
    then have "\<forall>c \<in> set (s @ ''\<newline>''). py_isspace c"
      by (simp add: newline_isspace)
    then have "dropWhile py_isspace ((s @ ''\<newline>'') @ ''```'' @ []) = ''```'' @ []"
      by (rule fence_after_space)
    then have "lazy_until_fence (dropWhile py_isspace (s @ ''\<newline>```'')) = Some []"
      by (simp add: backquote_not_space)
    then show ?thesis
      using True by (simp add: py_strip_all_space)
  next
    case False
    then obtain x where x: "x \<in> set s" "\<not> py_isspace x"
      by blast
    let ?post = "rev (takeWhile py_isspace (rev (dropWhile py_isspace s)))"
    have ne: "py_strip s \<noteq> []"
      using x by (rule py_strip_nonspace)
    have "dropWhile py_isspace (s @ ''\<newline>```'')
        = dropWhile py_isspace s @ ''\<newline>```''"
      using x by (rule dropWhile_append1)
    also have "\<dots> = (py_strip s @ ?post) @ ''\<newline>```''"
      using py_strip_decomp [of s] by simp
    also have "\<dots> = py_strip s @ (?post @ ''\<newline>'') @ ''```'' @ []"
      by simp
    finally have e: "dropWhile py_isspace (s @ ''\<newline>```'')
        = py_strip s @ (?post @ ''\<newline>'') @ ''```'' @ []" .
    have nf: "\<not> sublist ''```'' (py_strip s)"
      using assms py_strip_sublist [of s] by (meson sublist_order.order.trans)
    have sp: "\<forall>c \<in> set (?post @ ''\<newline>''). py_isspace c"
      by (auto simp: newline_isspace dest: set_takeWhileD)
    have "lazy_until_fence (py_strip s @ (?post @ ''\<newline>'') @ ''```'' @ [])
        = Some (py_strip s)"
      using nf py_strip_last sp by (intro lazy_until_fence_finds) (simp_all add: ne)
    with e show ?thesis
      by simp
  qed
  show ?thesis
    by (simp add: fenced_def newline_isspace found)
qed

subsection \<open>The response parser\<close>

text \<open>
  C1. Claimed: for every reply the parser produces a report and never raises because
  of formatting drift. A reply in prose that mentions braces is not JSON; the brace
  pattern finds \<open>{user_input}\<close>, the second \<open>json.loads\<close> stands outside the \<open>try\<close>,
  and its \<open>JSONDecodeError\<close> leaves the function.
\<close>

theorem C1_prose_with_braces_counterexample:
  "extract_report loads_example make_report_example
     ''The code passes {user_input} to os.system without sanitizing it.''
   = Inl JSONDecodeError"
  by (simp add: extract_report_def loads_example_def greedy_to_last_brace_def)

text \<open>
  C1, amended: for every reply on which the direct parse raises \<open>JSONDecodeError\<close> and
  in which neither the fenced-block pattern nor the brace pattern finds a match, the
  parser returns the degraded report: the summary says that parsing failed and carries
  the first 200 characters of the reply, and the issue list is empty. When the direct
  parse raises \<open>JSONDecodeError\<close> and a pattern finds a span on which \<open>json.loads\<close>
  raises, the parser raises that exception; and when the direct parse raises any other
  exception, the parser raises it.
\<close>

theorem C1_degraded_report:
  "(loads output_text = Inl JSONDecodeError \<and> re_search_fence output_text = None
      \<and> re_search_brace output_text = None \<longrightarrow>
        extract_report loads mk output_text
          = Inr \<lparr>summary = ''Failed to parse analysis results. Raw output: ''
                             @ take 200 output_text,
                  SecurityReport.issues = []\<rparr>)
   \<and> (loads output_text = Inl JSONDecodeError \<and> re_search_fence output_text = Some json_str
      \<and> loads json_str = Inl e \<longrightarrow>
        extract_report loads mk output_text = Inl e)
   \<and> (loads output_text = Inl JSONDecodeError \<and> re_search_fence output_text = None
      \<and> re_search_brace output_text = Some json_str \<and> loads json_str = Inl e \<longrightarrow>
        extract_report loads mk output_text = Inl e)
   \<and> (loads output_text = Inl e \<and> e \<noteq> JSONDecodeError \<longrightarrow>
        extract_report loads mk output_text = Inl e)"
  by (cases e) (simp_all add: extract_report_def)

lemma loads_example_nines:
  "loads_example (replicate 5000 (CHR ''9'')) = Inl (OtherException ''ValueError'')"
  by (simp add: loads_example_def list_all_iff)

theorem C1_degraded_report_witness:
  "extract_report loads_example make_report_example ''I am sorry, I cannot help with that.''
     = Inr \<lparr>summary = ''Failed to parse analysis results. Raw output: ''
                        @ ''I am sorry, I cannot help with that.'',
             SecurityReport.issues = []\<rparr>
   \<and> extract_report loads_example make_report_example (fenced ''to be done'')
     = Inl JSONDecodeError
   \<and> extract_report loads_example make_report_example ''see {the report} below''
     = Inl JSONDecodeError
   \<and> extract_report loads_example make_report_example (replicate 5000 (CHR ''9''))
     = Inl (OtherException ''ValueError'')"
proof -
  have 1: "loads_example ''I am sorry, I cannot help with that.'' = Inl JSONDecodeError"
    and 2: "loads_example (fenced ''to be done'') = Inl JSONDecodeError"
    and 3: "re_search_fence (fenced ''to be done'') = Some ''to be done''"
    and 4: "loads_example ''to be done'' = Inl JSONDecodeError"
    and 5: "loads_example ''see {the report} below'' = Inl JSONDecodeError"
    and 6: "re_search_brace ''see {the report} below'' = Some ''{the report}''"
    and 7: "loads_example ''{the report}'' = Inl JSONDecodeError"
    by (simp_all add: loads_example_def fenced_def py_isspace_def greedy_to_last_brace_def)
  show ?thesis
    using
      C1_degraded_report [where loads = loads_example and mk = make_report_example
        and output_text = "''I am sorry, I cannot help with that.''"]
      C1_degraded_report [where loads = loads_example and mk = make_report_example
        and output_text = "fenced ''to be done''" and json_str = "''to be done''"
        and e = JSONDecodeError]
      C1_degraded_report [where loads = loads_example and mk = make_report_example
        and output_text = "''see {the report} below''" and json_str = "''{the report}''"
        and e = JSONDecodeError]
      C1_degraded_report [where loads = loads_example and mk = make_report_example
        and output_text = "replicate 5000 (CHR ''9'')" and e = "OtherException ''ValueError''"]
      1 2 3 4 5 6 7 loads_example_nines
    by simp
qed

text \<open>
  C4. Claimed: a JSON text of the report's shape gives the same report directly and
  wrapped in a fenced block, and every non-JSON reply gives the degraded report. The
  lazy group of the fence pattern ends at the first three backquotes, also inside a JSON
  string: the report whose summary is \<open>avoid ```eval```\<close> is returned when sent as it is,
  and its fenced form raises \<open>JSONDecodeError\<close> on the truncated text.
\<close>

theorem C4_backquotes_in_json_counterexample:
  "extract_report loads_example make_report_example
       ''{\"summary\": \"avoid ```eval```\", \"issues\": []}''
     = Inr \<lparr>summary = ''avoid ```eval```'', SecurityReport.issues = []\<rparr>
   \<and> re_search_fence (fenced ''{\"summary\": \"avoid ```eval```\", \"issues\": []}'')
     = Some ''{\"summary\": \"avoid''
   \<and> extract_report loads_example make_report_example
       (fenced ''{\"summary\": \"avoid ```eval```\", \"issues\": []}'')
     = Inl JSONDecodeError"
  by (simp add: extract_report_def loads_example_def make_report_example_def fenced_def
      py_isspace_def)

text \<open>
  C4, amended: (1) a reply that \<open>json.loads\<close> decodes to a value of the report's shape
  gives the corresponding report by the direct parse; (2) for a JSON text that contains
  no three backquotes in a row, the fenced form of the text gives the same report, the
  pattern handing the text, stripped of surrounding whitespace, to \<open>json.loads\<close>;
  (3) a reply on which the direct parse fails and in which neither pattern finds a
  match gives the degraded report, with the first 200 characters of the reply and no
  issues.
\<close>

theorem C4_round_trip:
  "(loads js = Inr d \<and> mk d = Inr report \<longrightarrow>
      extract_report loads mk js = Inr report)
   \<and> (loads (py_strip js) = Inr d \<and> mk d = Inr report
        \<and> loads (fenced js) = Inl JSONDecodeError \<and> \<not> sublist ''```'' js \<longrightarrow>
      re_search_fence (fenced js) = Some (py_strip js)
      \<and> extract_report loads mk (fenced js) = Inr report)
   \<and> (loads t = Inl JSONDecodeError \<and> re_search_fence t = None
        \<and> re_search_brace t = None \<longrightarrow>
      extract_report loads mk t
        = Inr \<lparr>summary = ''Failed to parse analysis results. Raw output: '' @ take 200 t,
                SecurityReport.issues = []\<rparr>)"
proof (intro conjI impI)
  assume "loads js = Inr d \<and> mk d = Inr report"
  then show "extract_report loads mk js = Inr report"
    by (simp add: extract_report_def)
next
  assume a: "loads (py_strip js) = Inr d \<and> mk d = Inr report
        \<and> loads (fenced js) = Inl JSONDecodeError \<and> \<not> sublist ''```'' js"
  then show f: "re_search_fence (fenced js) = Some (py_strip js)"
    by (simp add: re_search_fence_fenced)
  from a f show "extract_report loads mk (fenced js) = Inr report"
    by (simp add: extract_report_def)
next
  assume "loads t = Inl JSONDecodeError \<and> re_search_fence t = None
        \<and> re_search_brace t = None"
  then show "extract_report loads mk t
        = Inr \<lparr>summary = ''Failed to parse analysis results. Raw output: '' @ take 200 t,
                SecurityReport.issues = []\<rparr>"
    by (simp add: extract_report_def)
qed

theorem C4_round_trip_witness:
  "extract_report loads_example make_report_example ''{\"summary\": \"ok\", \"issues\": []}''
     = Inr \<lparr>summary = ''ok'', SecurityReport.issues = []\<rparr>
   \<and> extract_report loads_example make_report_example
         (fenced ''{\"summary\": \"ok\", \"issues\": []}'')
     = Inr \<lparr>summary = ''ok'', SecurityReport.issues = []\<rparr>
   \<and> extract_report loads_example make_report_example ''%%% scrambled %%%''
     = Inr \<lparr>summary = ''Failed to parse analysis results. Raw output: %%% scrambled %%%'',
             SecurityReport.issues = []\<rparr>"
proof -
  let ?js = "''{\"summary\": \"ok\", \"issues\": []}''"
  let ?d = "JDict [(''summary'', JStr ''ok''), (''issues'', JList [])]"
  let ?r = "\<lparr>summary = ''ok'', SecurityReport.issues = []\<rparr>"
  have s: "py_strip ?js = ?js"
    by (simp add: py_strip_def py_isspace_def)
  have 1: "loads_example ?js = Inr ?d"
    by (simp add: loads_example_def)
  have 2: "make_report_example ?d = Inr ?r"
    by (simp add: make_report_example_def)
  have 3: "loads_example (fenced ?js) = Inl JSONDecodeError"
    by (simp add: loads_example_def fenced_def)
  have 4: "\<not> sublist ''```'' ?js"
    by (simp add: sublist_Cons_right)
  have 5: "loads_example ''%%% scrambled %%%'' = Inl JSONDecodeError"
    by (simp add: loads_example_def)
  have 6: "re_search_fence ''%%% scrambled %%%'' = None"
    by simp
  have 7: "re_search_brace ''%%% scrambled %%%'' = None"
    by simp
  show ?thesis
    using C4_round_trip [of loads_example ?js ?d make_report_example ?r "''%%% scrambled %%%''"]
      s 1 2 3 4 5 6 7
    by simp
qed

subsection \<open>Authentication\<close>

lemma py_split_no_sep:
  "sep \<notin> set s \<Longrightarrow> py_split sep s = [s]"
  by (induction s) auto

lemma bearer_token:
  assumes "CHR '' '' \<notin> set token"
  shows "py_split (CHR '' '') (''Bearer '' @ token) = [''Bearer'', token]"
  using assms by (simp add: py_split_no_sep)

text \<open>
  C5. Claimed: with strict verification required and no issuer host configured, a
  protected endpoint answers 500. The code raises that \<open>HTTPException(500)\<close> inside the
  \<open>try\<close> block, whose last handler, \<open>except Exception\<close>, catches it and raises 401
  "Authentication failed." in its place. With an empty environment (strict verification
  is the default) and a bearer token, the token step raises 500 and the caller is
  answered 401, on the analyze endpoint as well, whatever the libraries answer.
\<close>

theorem C5_misconfiguration_answers_401:
  "(\<forall>jwt. token_payload Map.empty jwt ''abc''
       = Inl (HTTPException 500 ''Server misconfiguration: CLERK_FRONTEND_API not set''))
   \<and> (\<forall>jwt. verify_authenticated_user Map.empty jwt
         \<lparr>headers = [''Authorization'' \<mapsto> ''Bearer abc''], remote_address = ''203.0.113.7''\<rparr>
       = Inl (HTTPException 401 ''Authentication failed.''))
   \<and> (\<forall>w body key. response (analyze_code Map.empty w
         \<lparr>headers = [''Authorization'' \<mapsto> ''Bearer abc''], remote_address = ''203.0.113.7''\<rparr>
         body key)
       = Inl (HTTPException 401 ''Authentication failed.''))"
proof -
  have p: "\<And>jwt. token_payload Map.empty jwt ''abc''
      = Inl (HTTPException 500 ''Server misconfiguration: CLERK_FRONTEND_API not set'')"
    by (simp add: token_payload_def os_getenv_def py_lower_def py_lower_char_def)
  have v: "\<And>jwt. verify_authenticated_user Map.empty jwt
         \<lparr>headers = [''Authorization'' \<mapsto> ''Bearer abc''], remote_address = ''203.0.113.7''\<rparr>
       = Inl (HTTPException 401 ''Authentication failed.'')"
    by (simp add: verify_authenticated_user_def verify_token_def p)
  show ?thesis
    by (simp add: p v analyze_code_def)
qed

text \<open>
  C9. Claimed: the identity is the email claim if present, otherwise the secondary
  email claim, otherwise the subject, and extraction fails exactly when none of the
  three is present. The claims are chained with \<open>or\<close>, which passes over a claim that
  is present but empty: with an empty email claim and a subject the identity is the
  subject, and with three claims present and empty or null the request is refused.
\<close>

theorem C9_empty_email_claim_counterexample:
  "verify_authenticated_user [''REQUIRE_JWT_VERIFICATION'' \<mapsto> ''false'']
       (jwt_example [''email'' \<mapsto> JStr [], ''sub'' \<mapsto> JStr ''user_2abc''])
       \<lparr>headers = [''Authorization'' \<mapsto> ''Bearer abc''], remote_address = ''203.0.113.7''\<rparr>
     = Inr (JStr ''user_2abc'')
   \<and> verify_authenticated_user [''REQUIRE_JWT_VERIFICATION'' \<mapsto> ''false'']
       (jwt_example [''email'' \<mapsto> JStr [], ''primary_email_address'' \<mapsto> JNull,
                     ''sub'' \<mapsto> JStr []])
       \<lparr>headers = [''Authorization'' \<mapsto> ''Bearer abc''], remote_address = ''203.0.113.7''\<rparr>
     = Inl (HTTPException 401 ''Authentication failed.'')"
  by (simp add: verify_authenticated_user_def verify_token_def token_payload_def
      os_getenv_def py_lower_def py_lower_char_def jwt_example_def user_identifier_def
      py_or_def dict_get_def)

text \<open>
  C9, amended: for every verified token payload the identity is, in this order, the
  first of the email claim, the secondary email claim and the subject claim whose value
  is truthy (present, and not empty, zero or null); the request is refused with status
  401 exactly when none of the three is truthy.
\<close>

theorem C9_identity_priority:
  assumes "headers request ''Authorization'' = Some (''Bearer '' @ token)"
    and "CHR '' '' \<notin> set token"
    and "token_payload env lib token = Inr payload"
  shows "verify_authenticated_user env lib request =
     (if truthy (dict_get payload ''email'') then Inr (dict_get payload ''email'')
      else if truthy (dict_get payload ''primary_email_address'')
        then Inr (dict_get payload ''primary_email_address'')
      else if truthy (dict_get payload ''sub'') then Inr (dict_get payload ''sub'')
      else Inl (HTTPException 401 ''Authentication failed.''))"
proof -
  have "py_split (CHR '' '') (''Bearer '' @ token) = [''Bearer'', token]"
    using assms(2) by (rule bearer_token)
  then show ?thesis
    using assms(1,3)
    by (simp add: verify_authenticated_user_def verify_token_def user_identifier_def
        py_or_def)
qed

theorem C9_identity_priority_witness:
  "verify_authenticated_user [''REQUIRE_JWT_VERIFICATION'' \<mapsto> ''false'']
       (jwt_example [''primary_email_address'' \<mapsto> JStr ''ada@example.org'',
                     ''sub'' \<mapsto> JStr ''user_2abc''])
       \<lparr>headers = [''Authorization'' \<mapsto> ''Bearer abc''], remote_address = ''203.0.113.7''\<rparr>
     = Inr (JStr ''ada@example.org'')"
proof -
  let ?env = "[''REQUIRE_JWT_VERIFICATION'' \<mapsto> ''false'']"
  let ?payload = "[''primary_email_address'' \<mapsto> JStr ''ada@example.org'',
                     ''sub'' \<mapsto> JStr ''user_2abc'']"
  let ?request = "\<lparr>headers = [''Authorization'' \<mapsto> ''Bearer abc''],
                    remote_address = ''203.0.113.7''\<rparr>"
  have 1: "headers ?request ''Authorization'' = Some (''Bearer '' @ ''abc'')"
    by simp
  have 2: "CHR '' '' \<notin> set ''abc''"
    by simp
  have 3: "token_payload ?env (jwt_example ?payload) ''abc'' = Inr ?payload"
    by (simp add: token_payload_def os_getenv_def py_lower_def py_lower_char_def
        jwt_example_def)
  show ?thesis
    using C9_identity_priority [OF 1 2 3] by (simp add: dict_get_def)
qed

subsection \<open>The analyze endpoint\<close>

text \<open>
  C8. Claimed: every request to the analyze endpoint without an \<open>Authorization\<close>
  header is answered with status 401. FastAPI decodes the body before it resolves the
  dependency that checks the header, so a request without the header whose body is not
  JSON is answered with status 422.
\<close>

theorem C8_malformed_body_counterexample:
  "\<forall>env w x_api_key.
     post_api_analyze env w \<lparr>headers = Map.empty, remote_address = ''203.0.113.7''\<rparr>
       MalformedBody x_api_key
     = \<lparr>response = Inl (HTTPException 422 ''Unprocessable Entity''), gateway_calls = []\<rparr>"
  by (simp add: post_api_analyze_def request_validation_error_def)

text \<open>
  C8, amended: every request to the analyze endpoint whose body can be read and
  decoded as JSON and that has no \<open>Authorization\<close> header, or one that does not begin
  with \<open>Bearer \<close>, is answered with status 401; and no request without such a header,
  whatever its body, has a prompt sent to the model.
\<close>

theorem C8_no_credential_no_gateway_call:
  assumes "case headers request ''Authorization'' of
             None \<Rightarrow> True
           | Some auth_header \<Rightarrow> \<not> prefix ''Bearer '' auth_header"
  shows "(body \<noteq> MalformedBody \<and> body \<noteq> UnreadableBody \<longrightarrow>
            post_api_analyze env w request body x_api_key
              = \<lparr>response = Inl (HTTPException 401 ''Authentication required. Please sign in.''),
                 gateway_calls = []\<rparr>)
       \<and> gateway_calls (post_api_analyze env w request body x_api_key) = []"
proof -
  have "verify_authenticated_user env (jwt w) request
      = Inl (HTTPException 401 ''Authentication required. Please sign in.'')"
    using assms by (auto simp: verify_authenticated_user_def split: option.splits)
  then show ?thesis
    by (cases body) (simp_all add: post_api_analyze_def analyze_code_def)
qed

theorem C8_no_credential_no_gateway_call_witness:
  "post_api_analyze Map.empty world_example
       \<lparr>headers = Map.empty, remote_address = ''203.0.113.7''\<rparr>
       (ValidBody \<lparr>AnalyzeRequest.code = ''import os''\<rparr>) None
     = \<lparr>response = Inl (HTTPException 401 ''Authentication required. Please sign in.''),
        gateway_calls = []\<rparr>
   \<and> post_api_analyze Map.empty world_example
       \<lparr>headers = [''Authorization'' \<mapsto> ''Basic dXNlcjpwdw==''], remote_address = ''203.0.113.7''\<rparr>
       InvalidBody None
     = \<lparr>response = Inl (HTTPException 401 ''Authentication required. Please sign in.''),
        gateway_calls = []\<rparr>"
  using C8_no_credential_no_gateway_call [of
      "\<lparr>headers = Map.empty, remote_address = ''203.0.113.7''\<rparr>"
      "ValidBody \<lparr>AnalyzeRequest.code = ''import os''\<rparr>" Map.empty world_example None]
    C8_no_credential_no_gateway_call [of
      "\<lparr>headers = [''Authorization'' \<mapsto> ''Basic dXNlcjpwdw==''], remote_address = ''203.0.113.7''\<rparr>"
      InvalidBody Map.empty world_example None]
  by simp

text \<open>With a credential and within the quota, the same request reaches the model.\<close>

lemma analyze_code_reaches_gateway:
  "post_api_analyze
       [''REQUIRE_JWT_VERIFICATION'' \<mapsto> ''false'', ''GROQ_API_KEY'' \<mapsto> ''gsk_test'']
       world_example
       \<lparr>headers = [''Authorization'' \<mapsto> ''Bearer abc''], remote_address = ''203.0.113.7''\<rparr>
       (ValidBody \<lparr>AnalyzeRequest.code = ''import os''\<rparr>) None
     = \<lparr>response = Inr \<lparr>summary = ''ok'', SecurityReport.issues = []\<rparr>,
        gateway_calls = [get_analysis_prompt ''import os'']\<rparr>"
  by (simp add: post_api_analyze_def analyze_code_def verify_authenticated_user_def
      verify_token_def token_payload_def os_getenv_def py_lower_def py_lower_char_def
      jwt_example_def user_identifier_def py_or_def dict_get_def world_example_def
      analyze_steps_def verify_api_key_def validate_request_def py_strip_def py_isspace_def
      check_api_keys_def run_security_analysis_with_mcp_def create_completion_def
      extract_report_def loads_example_def make_report_example_def)

subsection \<open>The fix stream\<close>

lemma stream_loop_eq:
  "stream_loop chunks acc bound
     = (map ChunkEvent (text_fragments (takeWhile (\<lambda>ch. ch \<noteq> []) chunks)),
        if [] \<in> set chunks then Inl (OtherException ''IndexError'')
        else Inr (acc @ concat (text_fragments chunks),
                  bound \<or> text_fragments chunks \<noteq> []))"
  by (induction chunks acc bound rule: stream_loop.induct)
     (auto simp: text_fragments_def)

lemma takeWhile_choices:
  "[] \<notin> set chunks \<Longrightarrow> takeWhile (\<lambda>ch. ch \<noteq> []) chunks = chunks"
  by (induction chunks) auto

text \<open>
  C7. Claimed: one \<open>chunk\<close> event per upstream fragment. The loop guards the event with
  \<open>if chunk.choices[0].delta.content\<close>, so a fragment that is empty or carries no text
  gets no event: of the five chunks below, three are announced.
\<close>

theorem C7_empty_fragment_counterexample:
  "fst (generate_fix_stream
       (world_example\<lparr>chat_stream :=
          (\<lambda>_. Stream [[Some ''''], [Some ''def''], [Some '' foo''], [Some ''():''], [None]]
                  None)\<rparr>)
       \<lparr>FixRequest.code = ''def foo()'', issues = []\<rparr>)
     = [StartEvent, ChunkEvent ''def'', ChunkEvent '' foo'', ChunkEvent ''():'',
        CompleteEvent ''def foo():'']"
  by (simp add: generate_fix_stream_def create_stream_def world_example_def)

text \<open>
  C7, amended: with the client constructed, a stream that ends normally and carries at
  least one non-empty text fragment gives one \<open>start\<close> event, then one \<open>chunk\<close> event
  per non-empty text fragment, carrying the fragment, in arrival order, then one
  \<open>complete\<close> event whose \<open>fixed_code\<close> is the concatenation of the fragments. If the
  client cannot be constructed, the request raises, the stream ends with an exception
  or a chunk has no choices, the events end with one \<open>error\<close> event and hold no
  \<open>complete\<close> event.
\<close>

theorem C7_fix_stream_events:
  "(client_init w = None \<and> chat_stream w (fix_prompt fix_request) = Stream chunks None
      \<and> [] \<notin> set chunks \<and> text_fragments chunks \<noteq> [] \<longrightarrow>
        fst (generate_fix_stream w fix_request)
          = [StartEvent] @ map ChunkEvent (text_fragments chunks)
            @ [CompleteEvent (concat (text_fragments chunks))])
   \<and> (client_init w = Some e
      \<or> chat_stream w (fix_prompt fix_request) = CreateRaises e
      \<or> chat_stream w (fix_prompt fix_request) = Stream chunks (Some e)
      \<or> (chat_stream w (fix_prompt fix_request) = Stream chunks failure \<and> [] \<in> set chunks)
      \<longrightarrow>
        last (fst (generate_fix_stream w fix_request)) = ErrorEvent
        \<and> (\<forall>c. CompleteEvent c \<notin> set (fst (generate_fix_stream w fix_request))))"
  by (auto simp: generate_fix_stream_def create_stream_def stream_loop_eq takeWhile_choices
      split: option.splits)

theorem C7_fix_stream_events_witness:
  "fst (generate_fix_stream world_example \<lparr>FixRequest.code = ''def foo()'', issues = []\<rparr>)
     = [StartEvent, ChunkEvent ''def'', ChunkEvent '' foo'', ChunkEvent ''():'',
        CompleteEvent ''def foo():'']
   \<and> last (fst (generate_fix_stream
       (world_example\<lparr>chat_stream :=
          (\<lambda>_. Stream [[Some ''def'']] (Some (OtherException ''APIConnectionError'')))\<rparr>)
       \<lparr>FixRequest.code = ''def foo()'', issues = []\<rparr>)) = ErrorEvent"
proof -
  let ?fr = "\<lparr>FixRequest.code = ''def foo()'', issues = []\<rparr>"
  let ?w = "world_example\<lparr>chat_stream :=
          (\<lambda>_. Stream [[Some ''def'']] (Some (OtherException ''APIConnectionError'')))\<rparr>"
  have 1: "client_init world_example = None" and 2: "client_init ?w = None"
    by (simp_all add: world_example_def)
  have 3: "chat_stream world_example (fix_prompt ?fr)
      = Stream [[Some ''def''], [Some '' foo''], [Some ''():'']] None"
    by (simp add: world_example_def)
  have 4: "chat_stream ?w (fix_prompt ?fr)
      = Stream [[Some ''def'']] (Some (OtherException ''APIConnectionError''))"
    by simp
  show ?thesis
    using C7_fix_stream_events [where w = world_example and fix_request = ?fr
          and chunks = "[[Some ''def''], [Some '' foo''], [Some ''():'']]"]
      C7_fix_stream_events [where w = ?w and fix_request = ?fr and chunks = "[[Some ''def'']]"
          and e = "OtherException ''APIConnectionError''"]
      1 2 3 4
    by (simp add: text_fragments_def)
qed

text \<open>
  A stream that ends normally without any content ends with the \<open>error\<close> event: line
  374 finds the local name \<open>json\<close> unbound.
\<close>

lemma stream_without_content:
  assumes "client_init w = None"
    and "chat_stream w (fix_prompt fix_request) = Stream chunks None"
    and "[] \<notin> set chunks" and "text_fragments chunks = []"
  shows "fst (generate_fix_stream w fix_request) = [StartEvent, ErrorEvent]"
  using assms
  by (simp add: generate_fix_stream_def create_stream_def stream_loop_eq takeWhile_choices)

subsection \<open>The fix endpoint\<close>

lemma fix_prompt_ends_with_code:
  "\<exists>before. fix_prompt fix_request
     = before @ ''ORIGINAL CODE:\<newline>'' @ FixRequest.code fix_request
       @ ''\<newline>\<newline>Return ONLY the fixed code with all security issues resolved. ''
       @ ''Maintain the original code structure and comments.''"
proof -
  let ?issues_text = "py_join ''\<newline>'' (issue_lines 0 (FixRequest.issues fix_request))"
  have "fix_prompt fix_request
      = (''Fix the following security issues in this Python code:\<newline>\<newline>''
         @ ''ISSUES TO FIX:\<newline>'' @ ?issues_text @ ''\<newline>\<newline>'')
        @ ''ORIGINAL CODE:\<newline>'' @ FixRequest.code fix_request
        @ ''\<newline>\<newline>Return ONLY the fixed code with all security issues resolved. ''
        @ ''Maintain the original code structure and comments.''"
    by (simp add: fix_prompt_def)
  then show ?thesis
    by blast
qed

lemma fix_security_issues_admitted:
  assumes "verify_authenticated_user env (jwt w) request = Inr user_email"
    and "limiter_hit w (get_user_email request) ''fix_security_issues''"
    and "verify_api_key env x_api_key = Inr ok"
  shows "fix_security_issues env w request fix_request x_api_key
     = \<lparr>response = Inr (fst (generate_fix_stream w fix_request)),
        gateway_calls = snd (generate_fix_stream w fix_request)\<rparr>"
  using assms by (simp add: fix_security_issues_def case_prod_beta)

text \<open>
  C10. Claimed: every fix request that passes authentication and the API-key check
  opens the stream and is forwarded upstream. The handler is decorated with the
  limiter, which answers 429 before the body runs; and the stream's client is
  constructed inside the generator, so when that fails the stream opens with the
  \<open>error\<close> event alone and nothing is sent upstream.
\<close>

theorem C10_rate_limited_counterexample:
  "fix_security_issues [''REQUIRE_JWT_VERIFICATION'' \<mapsto> ''false'']
       (world_example\<lparr>limiter_hit := (\<lambda>_ _. False)\<rparr>)
       \<lparr>headers = [''Authorization'' \<mapsto> ''Bearer abc''], remote_address = ''203.0.113.7''\<rparr>
       \<lparr>FixRequest.code = '''', issues = []\<rparr> None
     = \<lparr>response = Inl (HTTPException 429 ''Rate limit exceeded: 7 per 1 day''),
        gateway_calls = []\<rparr>
   \<and> fix_security_issues [''REQUIRE_JWT_VERIFICATION'' \<mapsto> ''false'']
       (world_example\<lparr>client_init := Some (OtherException ''OpenAIError'')\<rparr>)
       \<lparr>headers = [''Authorization'' \<mapsto> ''Bearer abc''], remote_address = ''203.0.113.7''\<rparr>
       \<lparr>FixRequest.code = '''', issues = []\<rparr> None
     = \<lparr>response = Inr [ErrorEvent], gateway_calls = []\<rparr>"
  by (simp add: fix_security_issues_def verify_authenticated_user_def verify_token_def
      token_payload_def os_getenv_def py_lower_def py_lower_char_def jwt_example_def
      user_identifier_def py_or_def dict_get_def world_example_def verify_api_key_def
      rate_limit_exceeded_def generate_fix_stream_def)

text \<open>
  C10, amended: the fix endpoint applies no request validation to the submitted code.
  For every fix request that passes authentication, the rate limit and the API-key
  check, whatever its code field holds (nothing, more than 50,000 bytes, or text that
  is not Python): the endpoint answers with the event stream; when the client is
  constructed, exactly one prompt goes upstream, and it carries the code field as it
  was submitted; and when the model then streams at least one non-empty fragment and
  ends normally, the stream is the \<open>start\<close> event, the \<open>chunk\<close> events of the
  fragments and the \<open>complete\<close> event with their concatenation.
\<close>

theorem C10_fix_skips_validation:
  assumes "verify_authenticated_user env (jwt w) request = Inr user_email"
    and "limiter_hit w (get_user_email request) ''fix_security_issues''"
    and "verify_api_key env x_api_key = Inr ok"
  shows "(\<exists>events. response (fix_security_issues env w request fix_request x_api_key)
            = Inr events)
       \<and> (client_init w = None \<longrightarrow>
            gateway_calls (fix_security_issues env w request fix_request x_api_key)
              = [fix_prompt fix_request]
            \<and> (\<exists>before. fix_prompt fix_request
                  = before @ ''ORIGINAL CODE:\<newline>'' @ FixRequest.code fix_request
                    @ ''\<newline>\<newline>Return ONLY the fixed code with all security issues resolved. ''
                    @ ''Maintain the original code structure and comments.''))
       \<and> (client_init w = None
            \<and> chat_stream w (fix_prompt fix_request) = Stream chunks None
            \<and> [] \<notin> set chunks \<and> text_fragments chunks \<noteq> [] \<longrightarrow>
            response (fix_security_issues env w request fix_request x_api_key)
              = Inr ([StartEvent] @ map ChunkEvent (text_fragments chunks)
                     @ [CompleteEvent (concat (text_fragments chunks))]))"
proof (intro conjI impI)
  show "\<exists>events. response (fix_security_issues env w request fix_request x_api_key)
      = Inr events"
    using assms by (simp add: fix_security_issues_admitted)
next
  assume "client_init w = None"
  then have "snd (generate_fix_stream w fix_request) = [fix_prompt fix_request]"
    by (simp add: generate_fix_stream_def create_stream_def
        split: upstream.splits prod.splits sum.splits option.splits)
  then show "gateway_calls (fix_security_issues env w request fix_request x_api_key)
      = [fix_prompt fix_request]"
    using assms by (simp add: fix_security_issues_admitted)
next
  show "\<exists>before. fix_prompt fix_request
      = before @ ''ORIGINAL CODE:\<newline>'' @ FixRequest.code fix_request
        @ ''\<newline>\<newline>Return ONLY the fixed code with all security issues resolved. ''
        @ ''Maintain the original code structure and comments.''"
    by (rule fix_prompt_ends_with_code)
next
  assume "client_init w = None
      \<and> chat_stream w (fix_prompt fix_request) = Stream chunks None
      \<and> [] \<notin> set chunks \<and> text_fragments chunks \<noteq> []"
  then have "fst (generate_fix_stream w fix_request)
      = [StartEvent] @ map ChunkEvent (text_fragments chunks)
        @ [CompleteEvent (concat (text_fragments chunks))]"
    by (simp add: generate_fix_stream_def create_stream_def stream_loop_eq takeWhile_choices)
  then show "response (fix_security_issues env w request fix_request x_api_key)
      = Inr ([StartEvent] @ map ChunkEvent (text_fragments chunks)
             @ [CompleteEvent (concat (text_fragments chunks))])"
    using assms by (simp add: fix_security_issues_admitted)
qed

theorem C10_fix_skips_validation_witness:
  "fix_security_issues [''REQUIRE_JWT_VERIFICATION'' \<mapsto> ''false''] world_example
       \<lparr>headers = [''Authorization'' \<mapsto> ''Bearer abc''], remote_address = ''203.0.113.7''\<rparr>
       \<lparr>FixRequest.code = '''', issues = []\<rparr> None
     = \<lparr>response = Inr [StartEvent, ChunkEvent ''def'', ChunkEvent '' foo'', ChunkEvent ''():'',
                         CompleteEvent ''def foo():''],
        gateway_calls = [fix_prompt \<lparr>FixRequest.code = '''', issues = []\<rparr>]\<rparr>
   \<and> fix_security_issues [''REQUIRE_JWT_VERIFICATION'' \<mapsto> ''false''] world_example
       \<lparr>headers = [''Authorization'' \<mapsto> ''Bearer abc''], remote_address = ''203.0.113.7''\<rparr>
       \<lparr>FixRequest.code = replicate 50001 (CHR ''(''), issues = []\<rparr> None
     = \<lparr>response = Inr [StartEvent, ChunkEvent ''def'', ChunkEvent '' foo'', ChunkEvent ''():'',
                         CompleteEvent ''def foo():''],
        gateway_calls = [fix_prompt \<lparr>FixRequest.code = replicate 50001 (CHR ''(''),
                                     issues = []\<rparr>]\<rparr>"
proof -
  let ?env = "[''REQUIRE_JWT_VERIFICATION'' \<mapsto> ''false'']"
  let ?request = "\<lparr>headers = [''Authorization'' \<mapsto> ''Bearer abc''],
                    remote_address = ''203.0.113.7''\<rparr>"
  let ?chunks = "[[Some ''def''], [Some '' foo''], [Some ''():'']]"
  have 1: "verify_authenticated_user ?env (jwt world_example) ?request = Inr (JStr ''user_2abc'')"
    by (simp add: verify_authenticated_user_def verify_token_def token_payload_def
        os_getenv_def py_lower_def py_lower_char_def jwt_example_def user_identifier_def
        py_or_def dict_get_def world_example_def)
  have 2: "limiter_hit world_example (get_user_email ?request) ''fix_security_issues''"
    by (simp add: world_example_def)
  have 3: "verify_api_key ?env None = Inr True"
    by (simp add: verify_api_key_def os_getenv_def py_lower_def py_lower_char_def)
  have 4: "client_init world_example = None"
    by (simp add: world_example_def)
  have 5: "\<And>fr. chat_stream world_example (fix_prompt fr) = Stream ?chunks None"
    by (simp add: world_example_def)
  have 6: "[] \<notin> set ?chunks" and 7: "text_fragments ?chunks = [''def'', '' foo'', ''():'']"
    by (simp_all add: text_fragments_def)
  have all: "fix_security_issues ?env world_example ?request fr None
      = \<lparr>response = Inr [StartEvent, ChunkEvent ''def'', ChunkEvent '' foo'',
                          ChunkEvent ''():'', CompleteEvent ''def foo():''],
         gateway_calls = [fix_prompt fr]\<rparr>" for fr
  proof -
    have "response (fix_security_issues ?env world_example ?request fr None)
        = Inr [StartEvent, ChunkEvent ''def'', ChunkEvent '' foo'', ChunkEvent ''():'',
               CompleteEvent ''def foo():'']
      \<and> gateway_calls (fix_security_issues ?env world_example ?request fr None)
        = [fix_prompt fr]"
      using C10_fix_skips_validation [OF 1 2 3, where fix_request = fr and chunks = ?chunks]
        4 5 6 7
      by simp
    then show ?thesis
      by (cases "fix_security_issues ?env world_example ?request fr None") simp
  qed
  show ?thesis
    by (simp add: all)
qed

end
